theory Spec2Isabelle
  imports Complex_Main "HOL-Library.Sublist"
begin

section \<open>Python values\<close>

text \<open>
  The payload an adapter returns is typed \<^verbatim>\<open>Any\<close> in \<^verbatim>\<open>differential_tester.py\<close>; the
  adapters of \<^verbatim>\<open>db_clients.py\<close> return either literal dictionaries or the decoded JSON
  body of an HTTP response. A payload is therefore modelled as a JSON value: \<^verbatim>\<open>None\<close>,
  a bool, an int, a string, a list, or a dict with string keys (an association list in
  insertion order; lookups take the first binding of a key, and a dict built by Python
  has every key once). Floating-point numbers are outside the model. A string is a
  sequence of code points below 256. The interpreter is CPython 3.11 or later, with its
  default limit of 4300 digits on the conversion of an int to a string.
\<close>

datatype pyval =
    PNone
  | PBool bool
  | PInt int
  | PStr string
  | PList "pyval list"
  | PDict "(string \<times> pyval) list"

text \<open>
  Every \<^verbatim>\<open>raise\<close> of the source and every error of a Python primitive is a value:
  the class of the exception with its message. All of them are subclasses of
  \<^verbatim>\<open>Exception\<close>, which is what the \<^verbatim>\<open>except Exception\<close> clauses of the source catch.
\<close>

datatype py_error =
    KeyError string
  | TypeError string
  | AttributeError string
  | IndexError string
  | ValueError string
  | Exception string

fun error_str :: "py_error \<Rightarrow> string" where
  "error_str (KeyError m) = m"
| "error_str (TypeError m) = m"
| "error_str (AttributeError m) = m"
| "error_str (IndexError m) = m"
| "error_str (ValueError m) = m"
| "error_str (Exception m) = m"

text \<open>Sequencing of fallible steps: the first error stops the computation.\<close>

fun and_then :: "py_error + 'a \<Rightarrow> ('a \<Rightarrow> py_error + 'b) \<Rightarrow> py_error + 'b" where
  "and_then (Inl e) f = Inl e"
| "and_then (Inr x) f = f x"

text \<open>
  The outcomes of steps taken from left to right: all their values, or the first error.
\<close>

fun in_order :: "(py_error + 'a) list \<Rightarrow> py_error + 'a list" where
  "in_order [] = Inr []"
| "in_order (r # rs) = and_then r (\<lambda>x. and_then (in_order rs) (\<lambda>xs. Inr (x # xs)))"

subsection \<open>\<^verbatim>\<open>str\<close> and \<^verbatim>\<open>repr\<close>\<close>

definition digit_char :: "nat \<Rightarrow> char" where
  "digit_char n = ''0123456789abcdef'' ! n"

function str_nat :: "nat \<Rightarrow> string" where
  "str_nat n = (if n < 10 then [digit_char n] else str_nat (n div 10) @ [digit_char (n mod 10)])"
  by pat_completeness auto
termination
  by (relation "measure id") auto

declare str_nat.simps [simp del]

text \<open>
  \<^verbatim>\<open>str\<close> of an int raises \<^verbatim>\<open>ValueError\<close> when the int has more than 4300 digits.
\<close>

definition str_int :: "int \<Rightarrow> py_error + string" where
  "str_int i =
     (let digits = str_nat (nat \<bar>i\<bar>) in
      if length digits > 4300
      then Inl (ValueError
             ''Exceeds the limit (4300 digits) for integer string conversion; use sys.set_int_max_str_digits() to increase the limit'')
      else Inr (if i < 0 then CHR ''-'' # digits else digits))"

text \<open>
  \<^verbatim>\<open>repr\<close> of a string: single quotes unless the string holds a single quote and no
  double quote; the quote and the backslash are escaped, tab, newline and carriage
  return have their letter escapes, and the other unprintable code points below 256
  (controls, DEL, 0x80 to 0xa0, the soft hyphen 0xad) are written \<^verbatim>\<open>\xNN\<close>.
\<close>

definition repr_quote :: "string \<Rightarrow> char" where
  "repr_quote s = (if CHR 0x27 \<in> set s \<and> CHR 0x22 \<notin> set s then CHR 0x22 else CHR 0x27)"

definition repr_char :: "char \<Rightarrow> char \<Rightarrow> string" where
  "repr_char q c =
     (let n = (of_char c :: nat) in
      if c = q \<or> c = CHR 0x5C then [CHR 0x5C, c]
      else if c = CHR 0x09 then [CHR 0x5C, CHR ''t'']
      else if c = CHR 0x0A then [CHR 0x5C, CHR ''n'']
      else if c = CHR 0x0D then [CHR 0x5C, CHR ''r'']
      else if n < 32 \<or> (127 \<le> n \<and> n \<le> 160) \<or> n = 173
        then [CHR 0x5C, CHR ''x'', digit_char (n div 16), digit_char (n mod 16)]
      else [c])"

definition repr_str :: "string \<Rightarrow> string" where
  "repr_str s = (let q = repr_quote s in [q] @ concat (map (repr_char q) s) @ [q])"

fun join :: "string \<Rightarrow> string list \<Rightarrow> string" where
  "join sep [] = []"
| "join sep [x] = x"
| "join sep (x # y # ys) = x @ sep @ join sep (y # ys)"

text \<open>
  \<^verbatim>\<open>repr\<close> of a value. It raises only through an int with too many digits, its own or
  one nested in a list or dict, whose members are rendered from left to right.
\<close>

fun py_repr :: "pyval \<Rightarrow> py_error + string" where
  "py_repr PNone = Inr ''None''"
| "py_repr (PBool b) = Inr (if b then ''True'' else ''False'')"
| "py_repr (PInt i) = str_int i"
| "py_repr (PStr s) = Inr (repr_str s)"
| "py_repr (PList xs) =
     and_then (in_order (map py_repr xs)) (\<lambda>parts. Inr (''['' @ join '', '' parts @ '']''))"
| "py_repr (PDict kvs) =
     and_then
       (in_order (map (\<lambda>(k, v). and_then (py_repr v) (\<lambda>r. Inr (repr_str k @ '': '' @ r))) kvs))
       (\<lambda>parts. Inr (''{'' @ join '', '' parts @ ''}''))"

text \<open>\<^verbatim>\<open>str(v)\<close>: a string is itself, any other value is its \<^verbatim>\<open>repr\<close>.\<close>

fun py_str :: "pyval \<Rightarrow> py_error + string" where
  "py_str (PStr s) = Inr s"
| "py_str v = py_repr v"

text \<open>\<^verbatim>\<open>[str(id) for id in xs]\<close>\<close>

definition str_each :: "pyval list \<Rightarrow> py_error + string list" where
  "str_each xs = in_order (map py_str xs)"

subsection \<open>Primitives on values\<close>

text \<open>\<^verbatim>\<open>isinstance(v, dict)\<close>, which for these values is also \<^verbatim>\<open>hasattr(v, 'get')\<close>.\<close>

fun is_dict :: "pyval \<Rightarrow> bool" where
  "is_dict (PDict kvs) = True"
| "is_dict v = False"

fun is_list :: "pyval \<Rightarrow> bool" where
  "is_list (PList xs) = True"
| "is_list v = False"

text \<open>\<^verbatim>\<open>type(v).__name__\<close>, as it appears in the messages of the interpreter.\<close>

fun type_name :: "pyval \<Rightarrow> string" where
  "type_name PNone = ''NoneType''"
| "type_name (PBool b) = ''bool''"
| "type_name (PInt i) = ''int''"
| "type_name (PStr s) = ''str''"
| "type_name (PList xs) = ''list''"
| "type_name (PDict kvs) = ''dict''"

text \<open>
  \<^verbatim>\<open>k in v\<close> for a string \<open>k\<close>: key membership in a dict, substring test on a string,
  element test on a list (only a string element equals a string), and a
  \<^verbatim>\<open>TypeError\<close> on the values that are not iterable.
\<close>

fun py_in :: "string \<Rightarrow> pyval \<Rightarrow> py_error + bool" where
  "py_in k (PDict kvs) = Inr (k \<in> set (map fst kvs))"
| "py_in k (PStr s) = Inr (sublist k s)"
| "py_in k (PList xs) = Inr (PStr k \<in> set xs)"
| "py_in k v =
     Inl (TypeError (''argument of type '' @ repr_str (type_name v) @ '' is not iterable''))"

text \<open>\<^verbatim>\<open>v[k]\<close> for a string \<open>k\<close>.\<close>

fun py_getitem :: "pyval \<Rightarrow> string \<Rightarrow> py_error + pyval" where
  "py_getitem (PDict kvs) k =
     (case map_of kvs k of None \<Rightarrow> Inl (KeyError (repr_str k)) | Some v \<Rightarrow> Inr v)"
| "py_getitem (PStr s) k =
     Inl (TypeError (''string indices must be integers, not '' @ repr_str ''str''))"
| "py_getitem (PList xs) k =
     Inl (TypeError ''list indices must be integers or slices, not str'')"
| "py_getitem v k =
     Inl (TypeError (repr_str (type_name v) @ '' object is not subscriptable''))"

text \<open>\<^verbatim>\<open>d.get(k, default)\<close> on the bindings of a dict.\<close>

definition dict_get :: "(string \<times> pyval) list \<Rightarrow> string \<Rightarrow> pyval \<Rightarrow> pyval" where
  "dict_get kvs k d = (case map_of kvs k of None \<Rightarrow> d | Some v \<Rightarrow> v)"

text \<open>\<^verbatim>\<open>k in d and isinstance(d[k], list)\<close>, with the list when it holds.\<close>

fun as_list :: "pyval \<Rightarrow> pyval list option" where
  "as_list (PList xs) = Some xs"
| "as_list v = None"

definition lookup_list :: "(string \<times> pyval) list \<Rightarrow> string \<Rightarrow> pyval list option" where
  "lookup_list kvs k = (case map_of kvs k of Some v \<Rightarrow> as_list v | None \<Rightarrow> None)"

text \<open>\<^verbatim>\<open>len(v)\<close>.\<close>

fun py_len :: "pyval \<Rightarrow> py_error + nat" where
  "py_len (PList xs) = Inr (length xs)"
| "py_len (PDict kvs) = Inr (length kvs)"
| "py_len (PStr s) = Inr (length s)"
| "py_len v =
     Inl (TypeError (''object of type '' @ repr_str (type_name v) @ '' has no len()''))"

section \<open>The result-ID extractor\<close>

text \<open>
  \<^verbatim>\<open>DifferentialTester._extract_search_result_ids\<close>. The local list \<^verbatim>\<open>result_ids\<close> is
  the value returned; a loop that appends to it is the concatenation of what each
  iteration appends, and stops at the first iteration that raises.
\<close>

fun collect :: "('a \<Rightarrow> py_error + 'b list) \<Rightarrow> 'a list \<Rightarrow> py_error + 'b list" where
  "collect f [] = Inr []"
| "collect f (x # xs) = and_then (f x) (\<lambda>a. and_then (collect f xs) (\<lambda>b. Inr (a @ b)))"

text \<open>\<^verbatim>\<open>if 'id' in p: result_ids.append(str(p['id']))\<close>, with no test of the type of \<open>p\<close>.\<close>

definition id_of :: "pyval \<Rightarrow> py_error + string list" where
  "id_of p =
     and_then (py_in ''id'' p) (\<lambda>present.
       if present
       then and_then (py_getitem p ''id'') (\<lambda>v. and_then (py_str v) (\<lambda>s. Inr [s]))
       else Inr [])"

text \<open>Milvus format: \<^verbatim>\<open>if isinstance(item, dict) and 'id' in item: ...append(str(item['id']))\<close>.\<close>

fun milvus_item :: "pyval \<Rightarrow> py_error + string list" where
  "milvus_item (PDict kvs) =
     (case map_of kvs ''id'' of
        Some v \<Rightarrow> and_then (py_str v) (\<lambda>s. Inr [s])
      | None \<Rightarrow> Inr [])"
| "milvus_item v = Inr []"

text \<open>Weaviate format: the three nested levels under \<^verbatim>\<open>'Get'\<close>.\<close>

fun weaviate_item :: "pyval \<Rightarrow> py_error + string list" where
  "weaviate_item (PDict kvs) =
     (case map_of kvs ''_additional'' of Some additional \<Rightarrow> id_of additional | None \<Rightarrow> Inr [])"
| "weaviate_item v = Inr []"

fun weaviate_collection :: "pyval \<Rightarrow> py_error + string list" where
  "weaviate_collection (PList items) = collect weaviate_item items"
| "weaviate_collection v = Inr []"

fun weaviate_get :: "pyval \<Rightarrow> py_error + string list" where
  "weaviate_get (PDict kvs) = collect weaviate_collection (map snd kvs)"
| "weaviate_get v =
     Inl (AttributeError
       (repr_str (type_name v) @ '' object has no attribute '' @ repr_str ''values''))"

text \<open>Chroma format: \<^verbatim>\<open>if isinstance(sublist, list): result_ids.extend([str(id) for id in sublist])\<close>.\<close>

fun chroma_sublist :: "pyval \<Rightarrow> py_error + string list" where
  "chroma_sublist (PList ys) = str_each ys"
| "chroma_sublist v = Inr []"

lemma size_map_of:
  "map_of kvs k = Some v \<Longrightarrow> size (v :: pyval) < Suc (size_list (size_prod (\<lambda>_. 0) size) kvs)"
  by (induction kvs) (auto split: if_splits)

function extract_search_result_ids :: "pyval \<Rightarrow> py_error + string list" where
  "extract_search_result_ids (PDict d) =
     (case lookup_list d ''data'' of
        Some items \<Rightarrow> collect milvus_item items
      | None \<Rightarrow>
     (case lookup_list d ''ids'' of
        Some ids \<Rightarrow> str_each ids
      | None \<Rightarrow>
     (case map_of d ''result'' of
        Some r \<Rightarrow> extract_search_result_ids r
      | None \<Rightarrow>
     (case map_of d ''Get'' of
        Some get_data \<Rightarrow> weaviate_get get_data
      | None \<Rightarrow>
     (case lookup_list d ''points'' of
        Some points \<Rightarrow> collect id_of points
      | None \<Rightarrow> Inr [])))))"
| "extract_search_result_ids (PList xs) =
     (if xs \<noteq> [] \<and> is_list (hd xs) then collect chroma_sublist xs
      else str_each xs)"
| "extract_search_result_ids PNone = Inr []"
| "extract_search_result_ids (PBool b) = Inr []"
| "extract_search_result_ids (PInt i) = Inr []"
| "extract_search_result_ids (PStr s) = Inr []"
  by pat_completeness auto
termination
  by (relation "measure size") (auto dest: size_map_of)

section \<open>Results and inconsistencies\<close>

text \<open>The dataclass \<^verbatim>\<open>DatabaseResult\<close>.\<close>

record DatabaseResult =
  database :: string
  success :: bool
  data :: pyval
  error :: "string option"
  execution_time :: real

text \<open>
  A dict keyed by adapter name (\<^verbatim>\<open>Dict[str, DatabaseResult]\<close> and the local dicts the
  comparators build) is the list of its items in insertion order, which is the order
  Python iterates it in.
\<close>

type_synonym 'v name_dict = "(string \<times> 'v) list"

text \<open>
  An inconsistency is one of the seven messages of the source. Each is an f-string; it is
  represented by its template and the values interpolated into it, not by its text:

  \<^item> \<^verbatim>\<open>Some databases succeeded while others failed. Success: {..}, Failed: {..}\<close>
  \<^item> \<^verbatim>\<open>Insert count mismatch: {success_counts}\<close>
  \<^item> \<^verbatim>\<open>Search results differ significantly between {reference_db} and {db_name}. Overlap: {..}%\<close>
  \<^item> \<^verbatim>\<open>Batch search results differ at query {query_idx} between {reference_db} and {db_name}. Overlap: {..}%\<close>
  \<^item> \<^verbatim>\<open>Delete operation status mismatch: {success_status}\<close>
  \<^item> \<^verbatim>\<open>Mixed operations execution count mismatch: {operation_counts}\<close>
  \<^item> \<^verbatim>\<open>Operation success status mismatch: {success_status}\<close>
\<close>

datatype inconsistency =
    SuccessFailure "string list" "string list"
  | InsertCountMismatch "pyval name_dict"
  | SearchDiffer string string real
  | BatchSearchDiffer nat string string real
  | DeleteStatusMismatch "pyval name_dict"
  | MixedCountMismatch "nat name_dict"
  | SuccessStatusMismatch "bool name_dict"

subsection \<open>More primitives\<close>

text \<open>\<^verbatim>\<open>hasattr(v, 'get')\<close>: of the values of the model only a dict has the attribute.\<close>

definition has_get :: "pyval \<Rightarrow> bool" where
  "has_get v = is_dict v"

text \<open>The bindings of a value known to be a dict.\<close>

fun bindings :: "pyval \<Rightarrow> (string \<times> pyval) list" where
  "bindings (PDict kvs) = kvs"
| "bindings v = []"

text \<open>Truth value of a value, as \<^verbatim>\<open>all\<close> tests it.\<close>

fun py_truthy :: "pyval \<Rightarrow> bool" where
  "py_truthy PNone = False"
| "py_truthy (PBool b) = b"
| "py_truthy (PInt i) = (i \<noteq> 0)"
| "py_truthy (PStr s) = (s \<noteq> [])"
| "py_truthy (PList xs) = (xs \<noteq> [])"
| "py_truthy (PDict kvs) = (kvs \<noteq> [])"

text \<open>
  \<^verbatim>\<open>len(set(values))\<close>. A list or a dict is unhashable and \<^verbatim>\<open>set\<close> raises on the first
  one it meets. Equal values are one element of the set, and a bool equals the int of
  the same value (\<^verbatim>\<open>True == 1\<close>), so each value is counted by its key under equality.
\<close>

fun hashable :: "pyval \<Rightarrow> bool" where
  "hashable (PList xs) = False"
| "hashable (PDict kvs) = False"
| "hashable v = True"

fun eq_key :: "pyval \<Rightarrow> pyval" where
  "eq_key (PBool b) = PInt (if b then 1 else 0)"
| "eq_key v = v"

definition len_set :: "pyval list \<Rightarrow> py_error + nat" where
  "len_set vs =
     (case find (\<lambda>v. \<not> hashable v) vs of
        Some v \<Rightarrow> Inl (TypeError (''unhashable type: '' @ repr_str (type_name v)))
      | None \<Rightarrow> Inr (card (set (map eq_key vs))))"

text \<open>
  \<^verbatim>\<open>s.lower()\<close> on code points below 256: the capital letters of ASCII and of Latin-1
  (0xC0 to 0xDE without the multiplication sign 0xD7) move up by 0x20.
\<close>

definition lower_char :: "char \<Rightarrow> char" where
  "lower_char c =
     (let n = (of_char c :: nat) in
      if (65 \<le> n \<and> n \<le> 90) \<or> (192 \<le> n \<and> n \<le> 222 \<and> n \<noteq> 215) then char_of (n + 32) else c)"

text \<open>\<^verbatim>\<open>v.lower()\<close>: only a string has the method.\<close>

fun py_lower :: "pyval \<Rightarrow> py_error + string" where
  "py_lower (PStr s) = Inr (map lower_char s)"
| "py_lower v =
     Inl (AttributeError
       (repr_str (type_name v) @ '' object has no attribute '' @ repr_str ''lower''))"

text \<open>A loop that fills a dict keyed by adapter name and stops at the first raise.\<close>

fun for_items :: "('v \<Rightarrow> py_error + 'w option) \<Rightarrow> 'v name_dict \<Rightarrow> py_error + 'w name_dict" where
  "for_items f [] = Inr []"
| "for_items f ((db_name, x) # rest) =
     and_then (f x) (\<lambda>entry.
       and_then (for_items f rest) (\<lambda>filled.
         Inr (case entry of Some w \<Rightarrow> (db_name, w) # filled | None \<Rightarrow> filled)))"

section \<open>The comparators\<close>

subsection \<open>\<^verbatim>\<open>_compare_insert_results\<close>\<close>

text \<open>
  One iteration of the loop over \<^verbatim>\<open>results.items()\<close>: what is stored in
  \<^verbatim>\<open>success_counts[db_name]\<close>, if anything. The branches are those of the source, in its
  order.
\<close>

definition success_count :: "pyval \<Rightarrow> py_error + pyval option" where
  "success_count d =
     (if has_get d then
        if ''insert_count'' \<in> set (map fst (bindings d))
          then and_then (py_getitem d ''insert_count'') (\<lambda>c. Inr (Some c))
        else if ''status'' \<in> set (map fst (bindings d))
          then and_then (py_len (dict_get (bindings d) ''insert_ids'' (PList [])))
                 (\<lambda>n. Inr (Some (PInt (int n))))
        else Inr None
      else if is_dict d then
        and_then (py_len (dict_get (bindings d) ''ids'' (PList []))) (\<lambda>n. Inr (Some (PInt (int n))))
      else Inr (Some (PInt 1)))"

definition compare_insert_results :: "DatabaseResult name_dict \<Rightarrow> py_error + inconsistency list" where
  "compare_insert_results results =
     and_then (for_items (\<lambda>result. success_count (data result)) results) (\<lambda>success_counts.
       and_then (len_set (map snd success_counts)) (\<lambda>n.
         Inr (if n > 1 then [InsertCountMismatch success_counts] else [])))"

subsection \<open>\<^verbatim>\<open>_compare_search_results\<close>\<close>

text \<open>
  \<^verbatim>\<open>try: set(self._extract_search_result_ids(d)) except Exception: set()\<close>
\<close>

definition result_id_set :: "pyval \<Rightarrow> string set" where
  "result_id_set d = (case extract_search_result_ids d of Inl e \<Rightarrow> {} | Inr result_ids \<Rightarrow> set result_ids)"

text \<open>
  The percentage is a float in the source; here it is the real number the float
  approximates. The quotient is at most 1, rounding to a float is monotone and 0.5 and 50
  are floats, so the test \<^verbatim>\<open>overlap_percent < 50\<close> has the same outcome on both for sets
  of fewer than \<open>2^53\<close> elements.
\<close>

definition overlap_percent :: "string set \<Rightarrow> string set \<Rightarrow> real" where
  "overlap_percent reference_ids ids =
     (let intersection = reference_ids \<inter> ids;
          max_len = max (card reference_ids) (card ids)
      in if max_len = 0 then 0 else real (card intersection) / real max_len * 100)"

definition differ :: "string set \<Rightarrow> string set \<Rightarrow> bool" where
  "differ reference_ids ids \<longleftrightarrow>
     overlap_percent reference_ids ids < 50 \<and> card reference_ids > 0 \<and> card ids > 0"

definition compare_search_results :: "DatabaseResult name_dict \<Rightarrow> inconsistency list" where
  "compare_search_results results =
     (let search_results = map (\<lambda>(db_name, result). (db_name, result_id_set (data result))) results
      in case search_results of
           [] \<Rightarrow> []
         | (reference_db, reference_ids) # others \<Rightarrow>
             concat (map (\<lambda>(db_name, ids).
               if db_name \<noteq> reference_db \<and> differ reference_ids ids
               then [SearchDiffer reference_db db_name (overlap_percent reference_ids ids)]
               else []) search_results))"

subsection \<open>\<^verbatim>\<open>_compare_batch_search_results\<close>\<close>

text \<open>
  The entry \<^verbatim>\<open>query_results[db_name]\<close> of one adapter at one query index: the identifiers
  of its result at that index, and the empty set when its payload is no list, is too
  short, or the extraction raises.
\<close>

definition query_result :: "pyval \<Rightarrow> nat \<Rightarrow> string set" where
  "query_result d query_idx =
     (case as_list d of
        Some xs \<Rightarrow> if query_idx < length xs then result_id_set (xs ! query_idx) else {}
      | None \<Rightarrow> {})"

definition compare_query :: "string \<Rightarrow> DatabaseResult name_dict \<Rightarrow> nat \<Rightarrow> inconsistency list" where
  "compare_query reference_db results query_idx =
     (let query_results = map (\<lambda>(db_name, result). (db_name, query_result (data result) query_idx)) results
      in if length query_results > 1 then
           (case map_of query_results reference_db of
              None \<Rightarrow> []
            | Some reference_ids \<Rightarrow>
                concat (map (\<lambda>(db_name, ids).
                  if db_name \<noteq> reference_db \<and> differ reference_ids ids
                  then [BatchSearchDiffer query_idx reference_db db_name
                          (overlap_percent reference_ids ids)]
                  else []) query_results))
         else [])"

definition compare_batch_search_results :: "DatabaseResult name_dict \<Rightarrow> inconsistency list" where
  "compare_batch_search_results results =
     (case results of
        [] \<Rightarrow> []
      | (reference_db, reference) # others \<Rightarrow>
          (case as_list (data reference) of
             None \<Rightarrow> []
           | Some reference_data \<Rightarrow>
               concat (map (compare_query reference_db results) [0..<length reference_data])))"

subsection \<open>\<^verbatim>\<open>_compare_delete_results\<close>\<close>

text \<open>One iteration of the loop: the value stored in \<^verbatim>\<open>success_status[db_name]\<close>.\<close>

definition delete_success :: "pyval \<Rightarrow> py_error + pyval" where
  "delete_success d =
     (if has_get d then
        and_then (py_lower (dict_get (bindings d) ''status'' (PStr '''')))
          (\<lambda>s. Inr (PBool (s \<in> set [''success'', ''ok'', ''completed''])))
      else if is_dict d then Inr (dict_get (bindings d) ''success'' (PBool True))
      else Inr (PBool True))"

definition compare_delete_results :: "DatabaseResult name_dict \<Rightarrow> py_error + inconsistency list" where
  "compare_delete_results results =
     and_then (for_items (\<lambda>result. and_then (delete_success (data result)) (\<lambda>s. Inr (Some s))) results)
       (\<lambda>success_status.
         Inr (if \<not> list_all py_truthy (map snd success_status)
              then [DeleteStatusMismatch success_status] else []))"

subsection \<open>\<^verbatim>\<open>_compare_mixed_operation_results\<close> and \<^verbatim>\<open>_compare_generic_results\<close>\<close>

definition compare_mixed_operation_results :: "DatabaseResult name_dict \<Rightarrow> inconsistency list" where
  "compare_mixed_operation_results results =
     (let operation_counts =
            map (\<lambda>(db_name, result).
              (db_name, case as_list (data result) of Some xs \<Rightarrow> length xs | None \<Rightarrow> 0)) results
      in if card (set (map snd operation_counts)) > 1
         then [MixedCountMismatch operation_counts] else [])"

definition compare_generic_results :: "DatabaseResult name_dict \<Rightarrow> inconsistency list" where
  "compare_generic_results results =
     (let success_status = map (\<lambda>(k, v). (k, success v)) results
      in if \<not> list_all (\<lambda>b. b) (map snd success_status)
         then [SuccessStatusMismatch success_status] else [])"

subsection \<open>\<^verbatim>\<open>_compare_results\<close>\<close>

text \<open>
  The table \<^verbatim>\<open>self.result_comparators\<close> of \<^verbatim>\<open>__init__\<close>, and the lookup
  \<^verbatim>\<open>self.result_comparators.get(operation, self._compare_generic_results)\<close>. A comparator
  that has no raising step returns its list.
\<close>

definition result_comparators ::
  "(string \<times> (DatabaseResult name_dict \<Rightarrow> py_error + inconsistency list)) list" where
  "result_comparators =
     [(''insert'', compare_insert_results),
      (''search'', \<lambda>results. Inr (compare_search_results results)),
      (''delete'', compare_delete_results),
      (''batch_insert'', compare_insert_results),
      (''batch_search'', \<lambda>results. Inr (compare_batch_search_results results)),
      (''mixed_operations'', \<lambda>results. Inr (compare_mixed_operation_results results))]"

definition comparator :: "string \<Rightarrow> DatabaseResult name_dict \<Rightarrow> py_error + inconsistency list" where
  "comparator operation =
     (case map_of result_comparators operation of
        Some c \<Rightarrow> c
      | None \<Rightarrow> (\<lambda>results. Inr (compare_generic_results results)))"

definition compare_results :: "string \<Rightarrow> DatabaseResult name_dict \<Rightarrow> py_error + inconsistency list" where
  "compare_results operation results =
     (let successful_results = filter (\<lambda>(k, v). success v) results;
          failed_results = filter (\<lambda>(k, v). \<not> success v) results;
          inconsistencies =
            (if successful_results \<noteq> [] \<and> failed_results \<noteq> []
             then [SuccessFailure (map fst successful_results) (map fst failed_results)]
             else [])
      in if length successful_results < 2 then Inr inconsistencies
         else and_then (comparator operation successful_results)
                (\<lambda>operation_inconsistencies. Inr (inconsistencies @ operation_inconsistencies)))"

section \<open>The orchestrator\<close>

subsection \<open>Adapters and the environment\<close>

text \<open>
  An adapter (a \<^verbatim>\<open>DatabaseClient\<close> of \<^verbatim>\<open>db_clients.py\<close>) is external to the tester. The
  tester awaits three of its methods, and each call either returns a payload or raises:
  a method is a function from the positional arguments of the call to that outcome. A
  call that never settles is outside the model.
\<close>

record client =
  insert_vectors :: "pyval list \<Rightarrow> py_error + pyval"
  search_vectors :: "pyval list \<Rightarrow> py_error + pyval"
  delete_vectors :: "pyval list \<Rightarrow> py_error + pyval"

text \<open>
  What the tester takes from its environment: how \<^verbatim>\<open>asyncio.gather\<close> settles the tasks
  (it is given what each task's coroutine returns, and either raises or returns a list
  with a result or an exception object per position), and the differences of the clock
  readings of \<^verbatim>\<open>_safe_execute\<close> and of \<^verbatim>\<open>run_test\<close> for each adapter.
\<close>

record env =
  gather :: "DatabaseResult list \<Rightarrow> py_error + (py_error + DatabaseResult) list"
  call_time :: "string \<Rightarrow> real"
  test_time :: "string \<Rightarrow> real"

text \<open>\<^verbatim>\<open>asyncio.gather(..., return_exceptions=True)\<close> when nothing goes wrong.\<close>

definition gather_all :: "DatabaseResult list \<Rightarrow> py_error + (py_error + DatabaseResult) list" where
  "gather_all task_results = Inr (map Inr task_results)"

subsection \<open>\<^verbatim>\<open>_safe_execute\<close>\<close>

text \<open>\<^verbatim>\<open>for x in v\<close>: the elements of a list, the characters of a string, the keys of a dict.\<close>

fun py_iter :: "pyval \<Rightarrow> py_error + pyval list" where
  "py_iter (PList xs) = Inr xs"
| "py_iter (PStr s) = Inr (map (\<lambda>c. PStr [c]) s)"
| "py_iter (PDict kvs) = Inr (map (\<lambda>(k, v). PStr k) kvs)"
| "py_iter v = Inl (TypeError (repr_str (type_name v) @ '' object is not iterable''))"

text \<open>One iteration of the loop of \<^verbatim>\<open>mixed_operations\<close>: what it appends to \<^verbatim>\<open>data\<close>.\<close>

definition mixed_step :: "client \<Rightarrow> pyval \<Rightarrow> pyval \<Rightarrow> py_error + pyval list" where
  "mixed_step cl collection_name op =
     and_then (py_getitem op ''type'') (\<lambda>ty.
       and_then
         (if ty = PStr ''insert'' then
            and_then (py_getitem op ''vectors'') (\<lambda>vectors.
              and_then (py_getitem op ''id'') (\<lambda>ident.
                and_then (insert_vectors cl [collection_name, PList [vectors], PList [ident]])
                  (\<lambda>result. Inr (Some result))))
          else if ty = PStr ''search'' then
            and_then (py_getitem op ''query_vector'') (\<lambda>query_vector.
              and_then (py_getitem op ''limit'') (\<lambda>limit.
                and_then (search_vectors cl [collection_name, query_vector, limit])
                  (\<lambda>result. Inr (Some result))))
          else if ty = PStr ''delete'' then
            and_then (py_getitem op ''ids'') (\<lambda>ids.
              and_then (delete_vectors cl [collection_name, ids]) (\<lambda>result. Inr (Some result)))
          else Inr None)
         (\<lambda>result. Inr (case result of
                          None \<Rightarrow> []
                        | Some r \<Rightarrow> [PDict [(''operation'', ty), (''result'', r)]])))"

text \<open>The body of the \<^verbatim>\<open>try\<close>: the payload stored in \<^verbatim>\<open>data\<close>, or the exception raised.\<close>

definition run_operation :: "client \<Rightarrow> string \<Rightarrow> (string \<times> pyval) list \<Rightarrow> py_error + pyval" where
  "run_operation cl operation inputs =
     (let collection_name = dict_get inputs ''collection_name'' (PStr ''test_collection'') in
      if operation = ''insert'' then
        and_then (py_getitem (PDict inputs) ''vectors'') (\<lambda>vectors.
          insert_vectors cl
            [collection_name, vectors, dict_get inputs ''ids'' PNone, dict_get inputs ''metadata'' PNone])
      else if operation = ''search'' then
        and_then (py_getitem (PDict inputs) ''query_vector'') (\<lambda>query_vector.
          search_vectors cl
            [collection_name, query_vector, dict_get inputs ''limit'' (PInt 10),
             dict_get inputs ''metric_type'' (PStr ''L2'')])
      else if operation = ''delete'' then
        and_then (py_getitem (PDict inputs) ''ids'') (\<lambda>ids.
          delete_vectors cl [collection_name, ids])
      else if operation = ''batch_insert'' then
        and_then (py_getitem (PDict inputs) ''vectors'') (\<lambda>vectors.
          insert_vectors cl
            [collection_name, vectors, dict_get inputs ''ids'' PNone, dict_get inputs ''metadata'' PNone])
      else if operation = ''batch_search'' then
        and_then (py_getitem (PDict inputs) ''query_vectors'') (\<lambda>query_vectors.
          and_then (py_iter query_vectors) (\<lambda>qs.
            and_then
              (collect (\<lambda>query_vector.
                 and_then
                   (search_vectors cl
                      [collection_name, query_vector, dict_get inputs ''limit'' (PInt 10),
                       dict_get inputs ''metric_type'' (PStr ''L2'')])
                   (\<lambda>result. Inr [result])) qs)
              (\<lambda>data. Inr (PList data))))
      else if operation = ''mixed_operations'' then
        and_then (py_getitem (PDict inputs) ''operations'') (\<lambda>operations.
          and_then (py_iter operations) (\<lambda>ops.
            and_then (collect (mixed_step cl collection_name) ops) (\<lambda>data. Inr (PList data))))
      else Inl (Exception (''Unknown operation: '' @ operation)))"

definition safe_execute ::
  "env \<Rightarrow> string \<Rightarrow> client \<Rightarrow> string \<Rightarrow> (string \<times> pyval) list \<Rightarrow> DatabaseResult" where
  "safe_execute ev db_name cl operation inputs =
     (case run_operation cl operation inputs of
        Inr d \<Rightarrow>
          \<lparr>database = db_name, success = True, data = d, error = None,
           execution_time = call_time ev db_name\<rparr>
      | Inl e \<Rightarrow>
          \<lparr>database = db_name, success = False, data = PNone, error = Some (error_str e),
           execution_time = call_time ev db_name\<rparr>)"

subsection \<open>\<^verbatim>\<open>_execute_on_all_databases\<close>\<close>

text \<open>
  The loop \<^verbatim>\<open>for i, (db_name, task) in enumerate(tasks.items())\<close> inside the \<^verbatim>\<open>try\<close>:
  \<^verbatim>\<open>results[i]\<close> raises \<^verbatim>\<open>IndexError\<close> when the list is too short, an exception object
  becomes a failed result, anything else is stored as it is.
\<close>

fun settle ::
  "nat \<Rightarrow> 'a name_dict \<Rightarrow> (py_error + DatabaseResult) list \<Rightarrow> py_error + DatabaseResult name_dict" where
  "settle i [] gathered = Inr []"
| "settle i ((db_name, task) # tasks) gathered =
     (if i < length gathered then
        and_then (settle (Suc i) tasks gathered) (\<lambda>db_results.
          Inr ((db_name,
                case gathered ! i of
                  Inl exn \<Rightarrow>
                    \<lparr>database = db_name, success = False, data = PNone,
                     error = Some (error_str exn), execution_time = 0\<rparr>
                | Inr result \<Rightarrow> result) # db_results))
      else Inl (IndexError ''list index out of range''))"

definition execute_on_all_databases ::
  "env \<Rightarrow> client name_dict \<Rightarrow> string \<Rightarrow> (string \<times> pyval) list \<Rightarrow> DatabaseResult name_dict" where
  "execute_on_all_databases ev clients operation inputs =
     (let tasks = map (\<lambda>(db_name, cl). (db_name, safe_execute ev db_name cl operation inputs)) clients
      in case and_then (gather ev (map snd tasks)) (settle 0 tasks) of
           Inr db_results \<Rightarrow> db_results
         | Inl e \<Rightarrow>
             map (\<lambda>(db_name, cl).
               (db_name,
                \<lparr>database = db_name, success = False, data = PNone,
                 error = Some (''Gather error: '' @ error_str e), execution_time = 0\<rparr>)) clients)"

subsection \<open>\<^verbatim>\<open>run_test\<close>\<close>

text \<open>The dataclass \<^verbatim>\<open>TestResult\<close> of \<^verbatim>\<open>models.py\<close>.\<close>

record TestResult =
  test_id :: string
  operation :: string
  inputs :: "(string \<times> pyval) list"
  results :: "pyval name_dict"
  inconsistencies :: "inconsistency list"
  execution_time :: "real name_dict"

text \<open>
  \<^verbatim>\<open>run_test\<close> has no handler of its own: an exception of the comparison step leaves it,
  and then no \<^verbatim>\<open>TestResult\<close> is built.
\<close>

definition run_test ::
  "env \<Rightarrow> client name_dict \<Rightarrow> string \<Rightarrow> string \<Rightarrow> (string \<times> pyval) list \<Rightarrow> py_error + TestResult" where
  "run_test ev clients tid op inp =
     (let db_results = execute_on_all_databases ev clients op inp in
      and_then (compare_results op db_results) (\<lambda>found.
        Inr \<lparr>test_id = tid, operation = op, inputs = inp,
             results = map (\<lambda>(name, result). (name, data result)) db_results,
             inconsistencies = found,
             execution_time = map (\<lambda>(name, result). (name, test_time ev name)) db_results\<rparr>))"

subsection \<open>Results as \<^verbatim>\<open>_safe_execute\<close> builds them\<close>

text \<open>
  The two shapes of result that \<^verbatim>\<open>_safe_execute\<close> returns, with the timing left at its
  default; they are used to write concrete result maps.
\<close>

definition succeeded_with :: "string \<Rightarrow> pyval \<Rightarrow> string \<times> DatabaseResult" where
  "succeeded_with db_name d =
     (db_name, \<lparr>database = db_name, success = True, data = d, error = None, execution_time = 0\<rparr>)"

definition failed_with :: "string \<Rightarrow> string \<Rightarrow> string \<times> DatabaseResult" where
  "failed_with db_name message =
     (db_name, \<lparr>database = db_name, success = False, data = PNone, error = Some message,
                execution_time = 0\<rparr>)"

subsection \<open>Adapters and environments for concrete runs\<close>

text \<open>
  An adapter that answers every call with the same outcome, an environment in which
  \<^verbatim>\<open>asyncio.gather\<close> settles every task, and one in which it raises.
\<close>

definition constant_client :: "py_error + pyval \<Rightarrow> client" where
  "constant_client outcome =
     \<lparr>insert_vectors = (\<lambda>args. outcome), search_vectors = (\<lambda>args. outcome),
      delete_vectors = (\<lambda>args. outcome)\<rparr>"

definition quiet_env :: env where
  "quiet_env = \<lparr>gather = gather_all, call_time = (\<lambda>db_name. 0), test_time = (\<lambda>db_name. 0)\<rparr>"

definition broken_env :: env where
  "broken_env = \<lparr>gather = (\<lambda>task_results. Inl (Exception ''event loop is closed'')),
                  call_time = (\<lambda>db_name. 0), test_time = (\<lambda>db_name. 0)\<rparr>"

subsection \<open>The delete rule in the words of the specification\<close>

text \<open>
  The status field of a payload, when the payload is a mapping that has one and it is a
  string; and the boolean the specification derives for an adapter: true exactly for a
  status that is \<^verbatim>\<open>success\<close>, \<^verbatim>\<open>ok\<close> or \<^verbatim>\<open>completed\<close> in any case, and true when there is
  no status to read.
\<close>

fun status_text :: "pyval \<Rightarrow> string option" where
  "status_text (PDict kvs) = (case map_of kvs ''status'' of Some (PStr s) \<Rightarrow> Some s | _ \<Rightarrow> None)"
| "status_text v = None"

definition reports_success :: "pyval \<Rightarrow> bool" where
  "reports_success d =
     (case status_text d of
        Some s \<Rightarrow> map lower_char s \<in> {''success'', ''ok'', ''completed''}
      | None \<Rightarrow> True)"

section \<open>Properties of the comparison step\<close>

subsection \<open>Sequencing\<close>

lemma and_then_Inr: "and_then x f = Inr y \<longleftrightarrow> (\<exists>a. x = Inr a \<and> f a = Inr y)"
  by (cases x) auto

lemma and_then_Inl: "and_then x f = Inl e \<longleftrightarrow> x = Inl e \<or> (\<exists>a. x = Inr a \<and> f a = Inl e)"
  by (cases x) auto

subsection \<open>No operation-specific comparator reports a success/failure divergence\<close>

lemma insert_no_divergence:
  "compare_insert_results rs = Inr found \<Longrightarrow> SuccessFailure a b \<notin> set found"
  by (auto simp: compare_insert_results_def and_then_Inr split: if_splits)

lemma delete_no_divergence:
  "compare_delete_results rs = Inr found \<Longrightarrow> SuccessFailure a b \<notin> set found"
  by (auto simp: compare_delete_results_def and_then_Inr split: if_splits)

lemma search_no_divergence: "SuccessFailure a b \<notin> set (compare_search_results rs)"
  by (auto simp: compare_search_results_def Let_def split: list.splits if_splits)

lemma compare_query_no_divergence: "SuccessFailure a b \<notin> set (compare_query r rs q)"
proof (cases "1 < length rs")
  case True
  then show ?thesis
    by (auto simp: compare_query_def Let_def split: option.splits)
next
  case False
  then show ?thesis
    by (simp add: compare_query_def)
qed

lemma batch_no_divergence: "SuccessFailure a b \<notin> set (compare_batch_search_results rs)"
  by (auto simp: compare_batch_search_results_def compare_query_no_divergence split: list.splits option.splits)

lemma mixed_no_divergence: "SuccessFailure a b \<notin> set (compare_mixed_operation_results rs)"
  by (auto simp: compare_mixed_operation_results_def Let_def)

lemma generic_no_divergence: "SuccessFailure a b \<notin> set (compare_generic_results rs)"
  by (auto simp: compare_generic_results_def Let_def)

lemma comparator_cases:
  "comparator op = compare_insert_results \<or>
   comparator op = (\<lambda>rs. Inr (compare_search_results rs)) \<or>
   comparator op = compare_delete_results \<or>
   comparator op = (\<lambda>rs. Inr (compare_batch_search_results rs)) \<or>
   comparator op = (\<lambda>rs. Inr (compare_mixed_operation_results rs)) \<or>
   comparator op = (\<lambda>rs. Inr (compare_generic_results rs))"
  by (simp add: comparator_def result_comparators_def)

lemma comparator_no_divergence:
  assumes "comparator op rs = Inr found"
  shows "SuccessFailure a b \<notin> set found"
  using comparator_cases [of op] assms
    insert_no_divergence [of rs found a b] delete_no_divergence [of rs found a b]
    search_no_divergence [of a b rs] batch_no_divergence [of a b rs]
    mixed_no_divergence [of a b rs] generic_no_divergence [of a b rs]
  by auto

subsection \<open>The generic comparator on successful results\<close>

lemma all_flags_of_successful:
  "list_all (\<lambda>b. b) (map snd (map (\<lambda>(k, v). (k, success v)) (filter (\<lambda>(k, v). success v) rs)))"
  by (induction rs) auto

lemma generic_all_success:
  "compare_generic_results (filter (\<lambda>(k, v). success v) rs) = []"
  using all_flags_of_successful [of rs] by (simp add: compare_generic_results_def Let_def)

lemma comparator_unknown:
  assumes "op \<notin> set [''insert'', ''search'', ''delete'', ''batch_insert'', ''batch_search'',
                       ''mixed_operations'']"
  shows "comparator op = (\<lambda>rs. Inr (compare_generic_results rs))"
  using assms by (simp add: comparator_def result_comparators_def)

subsection \<open>The cross-cutting rule\<close>

text \<open>
  Let \<open>succeeded\<close> and \<open>failed\<close> be the entries of the result map with the success flag set
  and not set, and let \<open>divergence\<close> be the one entry naming the keys of both when both are
  non-empty, and nothing otherwise. When fewer than two adapters succeeded, the step
  returns exactly \<open>divergence\<close> and no comparator runs. Whenever the step returns, its
  list is \<open>divergence\<close> followed by the entries of the operation's comparator, none of
  which is a success/failure entry. The step raises only when at least two adapters
  succeeded and the operation's comparator raised on them.
\<close>

lemma compare_results_cross_cutting:
  "let succeeded = filter (\<lambda>(k, v). success v) rs;
       failed = filter (\<lambda>(k, v). \<not> success v) rs;
       divergence = (if succeeded \<noteq> [] \<and> failed \<noteq> []
                     then [SuccessFailure (map fst succeeded) (map fst failed)] else [])
   in (length succeeded < 2 \<longrightarrow> compare_results op rs = Inr divergence) \<and>
      (\<forall>found. compare_results op rs = Inr found \<longrightarrow>
         (\<exists>specific. found = divergence @ specific \<and>
                     (\<forall>a b. SuccessFailure a b \<notin> set specific))) \<and>
      (\<forall>e. compare_results op rs = Inl e \<longrightarrow>
         2 \<le> length succeeded \<and> comparator op succeeded = Inl e)"
proof (cases "length (filter (\<lambda>(k, v). success v) rs) < 2")
  case True
  then show ?thesis
    by (simp add: compare_results_def Let_def)
next
  case False
  then show ?thesis
    by (auto simp: compare_results_def Let_def and_then_Inr and_then_Inl
             dest: comparator_no_divergence)
qed

text \<open>
  C2. The divergence entry is appended to the local list before the comparator is
  called, but \<^verbatim>\<open>_compare_results\<close> has no handler around the call. With two successful
  delete results whose status is a number and one failed result, both sets are
  non-empty, the delete comparator raises \<^verbatim>\<open>AttributeError\<close> on \<^verbatim>\<open>.lower()\<close>, and the
  step returns no list: the divergence between the adapters that succeeded and the one
  that failed is not reported.
\<close>

theorem compare_results_raises_after_divergence:
  "compare_results ''delete''
     [succeeded_with ''milvus'' (PDict [(''status'', PInt 200)]),
      succeeded_with ''chroma'' (PDict [(''status'', PInt 200)]),
      failed_with ''qdrant'' ''Delete failed: 500'']
   = Inl (AttributeError (repr_str ''int'' @ '' object has no attribute '' @ repr_str ''lower''))"
  by code_simp

subsection \<open>Unknown operations\<close>

text \<open>
  C10. For an operation tag outside the six keys of \<^verbatim>\<open>result_comparators\<close>, the lookup
  falls back to \<^verbatim>\<open>_compare_generic_results\<close>. \<^verbatim>\<open>_compare_results\<close> hands it only the
  results whose success flag is set, on which every flag is true, so its mismatch branch
  is not taken and it returns the empty list. The list returned for an unknown operation
  is therefore the success/failure divergence entry when some adapters succeeded and
  some failed, and empty otherwise: at most one entry.
\<close>

theorem unknown_operation_generic:
  assumes "op \<notin> set [''insert'', ''search'', ''delete'', ''batch_insert'', ''batch_search'',
                       ''mixed_operations'']"
  shows "comparator op = (\<lambda>successful. Inr (compare_generic_results successful)) \<and>
         compare_generic_results (filter (\<lambda>(k, v). success v) rs) = [] \<and>
         compare_results op rs =
           Inr (if filter (\<lambda>(k, v). success v) rs \<noteq> [] \<and> filter (\<lambda>(k, v). \<not> success v) rs \<noteq> []
                then [SuccessFailure (map fst (filter (\<lambda>(k, v). success v) rs))
                        (map fst (filter (\<lambda>(k, v). \<not> success v) rs))]
                else [])"
  using comparator_unknown [OF assms] generic_all_success [of rs]
  by (simp add: compare_results_def Let_def)

theorem unknown_operation_generic_witness:
  "''upsert'' \<notin> set [''insert'', ''search'', ''delete'', ''batch_insert'', ''batch_search'',
                       ''mixed_operations'']
   \<and> compare_results ''upsert''
       [succeeded_with ''milvus'' (PInt 1), succeeded_with ''chroma'' (PInt 2),
        failed_with ''qdrant'' ''Unknown operation: upsert'']
     = Inr [SuccessFailure [''milvus'', ''chroma''] [''qdrant'']]"
  using unknown_operation_generic
          [of "''upsert''" "[succeeded_with ''milvus'' (PInt 1), succeeded_with ''chroma'' (PInt 2),
        failed_with ''qdrant'' ''Unknown operation: upsert'']"]
  by (simp add: succeeded_with_def failed_with_def)

section \<open>Properties of the search comparators\<close>

subsection \<open>The overlap rule\<close>

lemma finite_result_id_set: "finite (result_id_set d)"
  by (simp add: result_id_set_def split: sum.splits)

lemma differ_iff:
  assumes "finite R" "finite I"
  shows "differ R I \<longleftrightarrow>
         100 * real (card (R \<inter> I)) / real (max (card R) (card I)) < 50 \<and> R \<noteq> {} \<and> I \<noteq> {}"
proof (cases "R = {} \<or> I = {}")
  case True
  then show ?thesis by (auto simp: differ_def)
next
  case False
  with assms have "card R > 0" "card I > 0" by (simp_all add: card_gt_0_iff)
  then show ?thesis using False
    by (simp add: differ_def overlap_percent_def Let_def algebra_simps)
qed

lemma overlap_percent_nonempty:
  assumes "finite R" "R \<noteq> {}"
  shows "overlap_percent R I = 100 * real (card (R \<inter> I)) / real (max (card R) (card I))"
proof -
  from assms have "card R > 0" by (simp add: card_gt_0_iff)
  then show ?thesis by (simp add: overlap_percent_def Let_def)
qed

lemma overlap_loop:
  assumes "reference_db \<notin> fst ` set xs" "finite R" "\<forall>(n, I) \<in> set xs. finite I"
  shows "concat (map (\<lambda>(db_name, ids).
               if db_name \<noteq> reference_db \<and> differ R ids
               then [mk db_name (overlap_percent R ids)]
               else []) xs)
       = concat (map (\<lambda>(db_name, ids).
            let percent = 100 * real (card (R \<inter> ids)) / real (max (card R) (card ids))
            in if percent < 50 \<and> R \<noteq> {} \<and> ids \<noteq> {}
               then [mk db_name percent] else []) xs)"
  using assms
proof (induction xs)
  case Nil
  then show ?case by simp
next
  case (Cons x xs)
  obtain n I where x: "x = (n, I)" by (cases x)
  with Cons.prems have n: "n \<noteq> reference_db" and fI: "finite I" by auto
  have IH: "concat (map (\<lambda>(db_name, ids).
               if db_name \<noteq> reference_db \<and> differ R ids
               then [mk db_name (overlap_percent R ids)]
               else []) xs)
       = concat (map (\<lambda>(db_name, ids).
            let percent = 100 * real (card (R \<inter> ids)) / real (max (card R) (card ids))
            in if percent < 50 \<and> R \<noteq> {} \<and> ids \<noteq> {}
               then [mk db_name percent] else []) xs)"
    using Cons by auto
  show ?case
    using n IH differ_iff [OF \<open>finite R\<close> fI] overlap_percent_nonempty [OF \<open>finite R\<close>, of I]
    by (auto simp: x Let_def)
qed

subsection \<open>\<^verbatim>\<open>_compare_search_results\<close>\<close>

text \<open>
  C3. On a map of successful search results (its keys distinct, as in any dict) the
  comparator takes the identifier set of every adapter, the extraction error of an
  adapter counting as the empty set. The first adapter in iteration order is the
  reference. For every other adapter, in order, with \<open>percent\<close> the size of the
  intersection over the larger of the two sizes, times 100, it emits one inconsistency
  naming the reference, the adapter and \<open>percent\<close> exactly when \<open>percent < 50\<close> and both
  sets are non-empty, and nothing otherwise; it emits nothing else. So two empty sets
  are never flagged.
\<close>

theorem search_comparator_overlap:
  assumes "distinct (map fst rs)" and "rs = (reference_db, reference) # others"
  shows "compare_search_results rs =
     concat (map (\<lambda>(db_name, result).
        let reference_ids = result_id_set (data reference);
            ids = result_id_set (data result);
            percent = 100 * real (card (reference_ids \<inter> ids))
                        / real (max (card reference_ids) (card ids))
        in if percent < 50 \<and> reference_ids \<noteq> {} \<and> ids \<noteq> {}
           then [SearchDiffer reference_db db_name percent] else []) others)"
proof -
  let ?R = "result_id_set (data reference)"
  let ?xs = "map (\<lambda>(db_name, result). (db_name, result_id_set (data result))) others"
  from assms have notin: "reference_db \<notin> fst ` set ?xs" by (auto simp: image_iff)
  have fin: "\<forall>(n, I) \<in> set ?xs. finite I" by (auto simp: finite_result_id_set)
  have "compare_search_results rs =
      concat (map (\<lambda>(db_name, ids).
               if db_name \<noteq> reference_db \<and> differ ?R ids
               then [SearchDiffer reference_db db_name (overlap_percent ?R ids)]
               else []) ?xs)"
    by (simp add: compare_search_results_def assms(2))
  also have "\<dots> = concat (map (\<lambda>(db_name, ids).
            let percent = 100 * real (card (?R \<inter> ids)) / real (max (card ?R) (card ids))
            in if percent < 50 \<and> ?R \<noteq> {} \<and> ids \<noteq> {}
               then [SearchDiffer reference_db db_name percent] else []) ?xs)"
    by (rule overlap_loop [OF notin finite_result_id_set fin])
  also have "\<dots> = concat (map (\<lambda>(db_name, result).
        let reference_ids = result_id_set (data reference);
            ids = result_id_set (data result);
            percent = 100 * real (card (reference_ids \<inter> ids))
                        / real (max (card reference_ids) (card ids))
        in if percent < 50 \<and> reference_ids \<noteq> {} \<and> ids \<noteq> {}
           then [SearchDiffer reference_db db_name percent] else []) others)"
    by (induction others) (auto simp: Let_def)
  finally show ?thesis .
qed

text \<open>
  The examples of the specification: \<open>{1,2,3}\<close> against \<open>{1,2,9}\<close> overlaps by two thirds
  and is not flagged, \<open>{1,2,3}\<close> against \<open>{9,10,11}\<close> is flagged with 0 percent, and two
  empty results are not flagged.
\<close>

theorem search_comparator_overlap_witness:
  "compare_search_results
     [succeeded_with ''milvus'' (PDict [(''ids'', PList [PInt 1, PInt 2, PInt 3])]),
      succeeded_with ''chroma'' (PDict [(''ids'', PList [PInt 1, PInt 2, PInt 9])])] = []
   \<and> compare_search_results
     [succeeded_with ''milvus'' (PDict [(''ids'', PList [PInt 1, PInt 2, PInt 3])]),
      succeeded_with ''chroma'' (PDict [(''ids'', PList [PInt 9, PInt 10, PInt 11])])]
     = [SearchDiffer ''milvus'' ''chroma'' 0]
   \<and> compare_search_results
     [succeeded_with ''milvus'' (PDict [(''data'', PList [])]),
      succeeded_with ''chroma'' (PDict [(''data'', PList [])])] = []"
proof -
  have a: "compare_search_results
     [succeeded_with ''milvus'' (PDict [(''ids'', PList [PInt 1, PInt 2, PInt 3])]),
      succeeded_with ''chroma'' (PDict [(''ids'', PList [PInt 1, PInt 2, PInt 9])])]
     = (let reference_ids = result_id_set (PDict [(''ids'', PList [PInt 1, PInt 2, PInt 3])]);
            ids = result_id_set (PDict [(''ids'', PList [PInt 1, PInt 2, PInt 9])]);
            percent = 100 * real (card (reference_ids \<inter> ids))
                        / real (max (card reference_ids) (card ids))
        in if percent < 50 \<and> reference_ids \<noteq> {} \<and> ids \<noteq> {}
           then [SearchDiffer ''milvus'' ''chroma'' percent] else [])"
    using search_comparator_overlap
      [of "[succeeded_with ''milvus'' (PDict [(''ids'', PList [PInt 1, PInt 2, PInt 3])]),
            succeeded_with ''chroma'' (PDict [(''ids'', PList [PInt 1, PInt 2, PInt 9])])]"
          "''milvus''" "snd (succeeded_with ''milvus'' (PDict [(''ids'', PList [PInt 1, PInt 2, PInt 3])]))"
          "[succeeded_with ''chroma'' (PDict [(''ids'', PList [PInt 1, PInt 2, PInt 9])])]"]
    by (simp add: succeeded_with_def)
  have a': "(let reference_ids = result_id_set (PDict [(''ids'', PList [PInt 1, PInt 2, PInt 3])]);
            ids = result_id_set (PDict [(''ids'', PList [PInt 1, PInt 2, PInt 9])]);
            percent = 100 * real (card (reference_ids \<inter> ids))
                        / real (max (card reference_ids) (card ids))
        in if percent < 50 \<and> reference_ids \<noteq> {} \<and> ids \<noteq> {}
           then [SearchDiffer ''milvus'' ''chroma'' percent] else []) = []"
    by code_simp
  have b: "compare_search_results
     [succeeded_with ''milvus'' (PDict [(''ids'', PList [PInt 1, PInt 2, PInt 3])]),
      succeeded_with ''chroma'' (PDict [(''ids'', PList [PInt 9, PInt 10, PInt 11])])]
     = [SearchDiffer ''milvus'' ''chroma'' 0]"
    by code_simp
  have c: "compare_search_results
     [succeeded_with ''milvus'' (PDict [(''data'', PList [])]),
      succeeded_with ''chroma'' (PDict [(''data'', PList [])])] = []"
    by code_simp
  from a a' b c show ?thesis by simp
qed

subsection \<open>\<^verbatim>\<open>_compare_batch_search_results\<close>\<close>

lemma finite_query_result: "finite (query_result d q)"
  by (simp add: query_result_def finite_result_id_set split: option.splits)

lemma compare_query_overlap:
  assumes "distinct (map fst rs)" and "rs = (reference_db, reference) # others"
  shows "compare_query reference_db rs q =
     concat (map (\<lambda>(db_name, result).
        let reference_ids = query_result (data reference) q;
            ids = query_result (data result) q;
            percent = 100 * real (card (reference_ids \<inter> ids))
                        / real (max (card reference_ids) (card ids))
        in if percent < 50 \<and> reference_ids \<noteq> {} \<and> ids \<noteq> {}
           then [BatchSearchDiffer q reference_db db_name percent] else []) others)"
proof (cases others)
  case Nil
  then show ?thesis by (simp add: compare_query_def assms(2))
next
  case (Cons o1 os)
  let ?R = "query_result (data reference) q"
  let ?xs = "map (\<lambda>(db_name, result). (db_name, query_result (data result) q)) others"
  from assms have notin: "reference_db \<notin> fst ` set ?xs" by (auto simp: image_iff)
  have fin: "\<forall>(n, I) \<in> set ?xs. finite I" by (auto simp: finite_query_result)
  have "compare_query reference_db rs q =
      concat (map (\<lambda>(db_name, ids).
               if db_name \<noteq> reference_db \<and> differ ?R ids
               then [BatchSearchDiffer q reference_db db_name (overlap_percent ?R ids)]
               else []) ?xs)"
    using Cons by (simp add: compare_query_def assms(2))
  also have "\<dots> = concat (map (\<lambda>(db_name, ids).
            let percent = 100 * real (card (?R \<inter> ids)) / real (max (card ?R) (card ids))
            in if percent < 50 \<and> ?R \<noteq> {} \<and> ids \<noteq> {}
               then [BatchSearchDiffer q reference_db db_name percent] else []) ?xs)"
    by (rule overlap_loop [OF notin finite_query_result fin])
  also have "\<dots> = concat (map (\<lambda>(db_name, result).
        let reference_ids = query_result (data reference) q;
            ids = query_result (data result) q;
            percent = 100 * real (card (reference_ids \<inter> ids))
                        / real (max (card reference_ids) (card ids))
        in if percent < 50 \<and> reference_ids \<noteq> {} \<and> ids \<noteq> {}
           then [BatchSearchDiffer q reference_db db_name percent] else []) others)"
    by (induction others) (auto simp: Let_def)
  finally show ?thesis .
qed

text \<open>
  C8. On a map of successful batch-search results (its keys distinct) whose first
  adapter, the reference, holds a list payload, the comparator applies the overlap rule
  for every query index from 0 up to, and not including, the length of the reference's
  list, and at each index for every other adapter in order. The identifier set of an
  adapter at an index is that of the element of its list at the index, and is empty when
  its payload is no list or the list ends before the index. One inconsistency naming the
  query index, the reference, the adapter and the percentage is emitted exactly when the
  percentage is below 50 and both sets at that index are non-empty.
\<close>

theorem batch_search_comparator_overlap:
  assumes "distinct (map fst rs)" and "rs = (reference_db, reference) # others"
      and "data reference = PList reference_data"
  shows "compare_batch_search_results rs =
     concat (map (\<lambda>query_idx.
       concat (map (\<lambda>(db_name, result).
         let reference_ids = result_id_set (reference_data ! query_idx);
             ids = (case as_list (data result) of
                      Some xs \<Rightarrow> if query_idx < length xs then result_id_set (xs ! query_idx) else {}
                    | None \<Rightarrow> {});
             percent = 100 * real (card (reference_ids \<inter> ids))
                         / real (max (card reference_ids) (card ids))
         in if percent < 50 \<and> reference_ids \<noteq> {} \<and> ids \<noteq> {}
            then [BatchSearchDiffer query_idx reference_db db_name percent] else []) others))
       [0..<length reference_data])"
proof -
  have "compare_batch_search_results rs =
        concat (map (compare_query reference_db rs) [0..<length reference_data])"
    by (simp add: compare_batch_search_results_def assms(2,3))
  also have "\<dots> = concat (map (\<lambda>query_idx.
       concat (map (\<lambda>(db_name, result).
         let reference_ids = result_id_set (reference_data ! query_idx);
             ids = (case as_list (data result) of
                      Some xs \<Rightarrow> if query_idx < length xs then result_id_set (xs ! query_idx) else {}
                    | None \<Rightarrow> {});
             percent = 100 * real (card (reference_ids \<inter> ids))
                         / real (max (card reference_ids) (card ids))
         in if percent < 50 \<and> reference_ids \<noteq> {} \<and> ids \<noteq> {}
            then [BatchSearchDiffer query_idx reference_db db_name percent] else []) others))
       [0..<length reference_data])"
  proof (rule arg_cong [where f = concat], rule map_cong [OF refl])
    fix q assume "q \<in> set [0..<length reference_data]"
    then have q: "q < length reference_data" by simp
    then have R: "query_result (data reference) q = result_id_set (reference_data ! q)"
      by (simp add: query_result_def assms(3))
    show "compare_query reference_db rs q =
       concat (map (\<lambda>(db_name, result).
         let reference_ids = result_id_set (reference_data ! q);
             ids = (case as_list (data result) of
                      Some xs \<Rightarrow> if q < length xs then result_id_set (xs ! q) else {}
                    | None \<Rightarrow> {});
             percent = 100 * real (card (reference_ids \<inter> ids))
                         / real (max (card reference_ids) (card ids))
         in if percent < 50 \<and> reference_ids \<noteq> {} \<and> ids \<noteq> {}
            then [BatchSearchDiffer q reference_db db_name percent] else []) others)"
      unfolding compare_query_overlap [OF assms(1,2)] R
      by (simp add: query_result_def)
  qed
  finally show ?thesis .
qed

theorem batch_search_comparator_overlap_witness:
  "compare_batch_search_results
     [succeeded_with ''milvus''
        (PList [PDict [(''ids'', PList [PInt 1, PInt 2, PInt 3])], PDict [(''ids'', PList [PInt 4, PInt 5])]]),
      succeeded_with ''chroma'' (PList [PDict [(''ids'', PList [PInt 7, PInt 8, PInt 9])]])]
   = [BatchSearchDiffer 0 ''milvus'' ''chroma'' 0]"
proof -
  have a: "compare_batch_search_results
     [succeeded_with ''milvus''
        (PList [PDict [(''ids'', PList [PInt 1, PInt 2, PInt 3])], PDict [(''ids'', PList [PInt 4, PInt 5])]]),
      succeeded_with ''chroma'' (PList [PDict [(''ids'', PList [PInt 7, PInt 8, PInt 9])]])]
   = concat (map (\<lambda>query_idx.
       concat (map (\<lambda>(db_name, result).
         let reference_ids = result_id_set
               ([PDict [(''ids'', PList [PInt 1, PInt 2, PInt 3])], PDict [(''ids'', PList [PInt 4, PInt 5])]]
                  ! query_idx);
             ids = (case as_list (data result) of
                      Some xs \<Rightarrow> if query_idx < length xs then result_id_set (xs ! query_idx) else {}
                    | None \<Rightarrow> {});
             percent = 100 * real (card (reference_ids \<inter> ids))
                         / real (max (card reference_ids) (card ids))
         in if percent < 50 \<and> reference_ids \<noteq> {} \<and> ids \<noteq> {}
            then [BatchSearchDiffer query_idx ''milvus'' db_name percent] else [])
         [succeeded_with ''chroma'' (PList [PDict [(''ids'', PList [PInt 7, PInt 8, PInt 9])]])]))
       [0..<length [PDict [(''ids'', PList [PInt 1, PInt 2, PInt 3])], PDict [(''ids'', PList [PInt 4, PInt 5])]]])"
    by (rule batch_search_comparator_overlap
          [where reference = "snd (succeeded_with ''milvus''
        (PList [PDict [(''ids'', PList [PInt 1, PInt 2, PInt 3])], PDict [(''ids'', PList [PInt 4, PInt 5])]]))"])
       (simp_all add: succeeded_with_def)
  have b: "concat (map (\<lambda>query_idx.
       concat (map (\<lambda>(db_name, result).
         let reference_ids = result_id_set
               ([PDict [(''ids'', PList [PInt 1, PInt 2, PInt 3])], PDict [(''ids'', PList [PInt 4, PInt 5])]]
                  ! query_idx);
             ids = (case as_list (data result) of
                      Some xs \<Rightarrow> if query_idx < length xs then result_id_set (xs ! query_idx) else {}
                    | None \<Rightarrow> {});
             percent = 100 * real (card (reference_ids \<inter> ids))
                         / real (max (card reference_ids) (card ids))
         in if percent < 50 \<and> reference_ids \<noteq> {} \<and> ids \<noteq> {}
            then [BatchSearchDiffer query_idx ''milvus'' db_name percent] else [])
         [succeeded_with ''chroma'' (PList [PDict [(''ids'', PList [PInt 7, PInt 8, PInt 9])]])]))
       [0..<length [PDict [(''ids'', PList [PInt 1, PInt 2, PInt 3])], PDict [(''ids'', PList [PInt 4, PInt 5])]]])
     = [BatchSearchDiffer 0 ''milvus'' ''chroma'' 0]"
    by code_simp
  from a b show ?thesis by simp
qed

section \<open>Properties of the result-ID extractor\<close>

subsection \<open>The exceptions it can raise\<close>

lemma collect_Inl: "collect f xs = Inl e \<Longrightarrow> \<exists>x \<in> set xs. f x = Inl e"
  by (induction xs) (auto simp: and_then_Inl)

lemma in_order_Inl: "in_order (map f xs) = Inl e \<Longrightarrow> \<exists>x \<in> set xs. f x = Inl e"
  by (induction xs) (auto simp: and_then_Inl)

lemma str_int_Inl: "str_int i = Inl e \<Longrightarrow> \<exists>m. e = ValueError m"
  by (auto simp: str_int_def Let_def split: if_splits)

lemma py_repr_Inl: "py_repr v = Inl e \<Longrightarrow> \<exists>m. e = ValueError m"
proof (induction v arbitrary: e rule: py_repr.induct)
  case (3 i)
  then show ?case by (auto dest: str_int_Inl)
next
  case (5 xs)
  from 5(2) have "in_order (map py_repr xs) = Inl e"
    by (auto simp: and_then_Inl)
  then obtain x where "x \<in> set xs" "py_repr x = Inl e"
    by (auto dest!: in_order_Inl)
  with 5(1) show ?case by blast
next
  case (6 kvs)
  from 6(2) have
    "in_order (map (\<lambda>(k, v). and_then (py_repr v) (\<lambda>r. Inr (repr_str k @ '': '' @ r))) kvs) = Inl e"
    by (auto simp: and_then_Inl)
  then obtain k v where "(k, v) \<in> set kvs" "py_repr v = Inl e"
    by (fastforce dest!: in_order_Inl simp: and_then_Inl)
  with 6(1) show ?case by blast
qed simp_all

lemma py_str_Inl: "py_str v = Inl e \<Longrightarrow> \<exists>m. e = ValueError m"
  by (cases v) (auto dest: py_repr_Inl simp del: py_repr.simps)

lemma str_each_Inl: "str_each xs = Inl e \<Longrightarrow> \<exists>m. e = ValueError m"
  by (auto simp: str_each_def dest!: in_order_Inl py_str_Inl)

lemma id_of_Inl: "id_of p = Inl e \<Longrightarrow> (\<exists>m. e = TypeError m) \<or> (\<exists>m. e = ValueError m)"
  by (cases p)
     (auto simp: id_of_def and_then_Inl map_of_eq_None_iff dest: py_str_Inl
           split: if_splits option.splits)

lemma milvus_item_Inl: "milvus_item v = Inl e \<Longrightarrow> \<exists>m. e = ValueError m"
  by (cases v) (auto simp: and_then_Inl dest: py_str_Inl split: option.splits)

lemma chroma_sublist_Inl: "chroma_sublist v = Inl e \<Longrightarrow> \<exists>m. e = ValueError m"
  by (cases v) (auto dest: str_each_Inl)

lemma weaviate_item_Inl:
  "weaviate_item v = Inl e \<Longrightarrow> (\<exists>m. e = TypeError m) \<or> (\<exists>m. e = ValueError m)"
  by (cases v) (auto dest: id_of_Inl split: option.splits)

lemma weaviate_collection_Inl:
  "weaviate_collection v = Inl e \<Longrightarrow> (\<exists>m. e = TypeError m) \<or> (\<exists>m. e = ValueError m)"
  by (cases v) (auto dest!: collect_Inl weaviate_item_Inl)

lemma weaviate_get_Inl:
  "weaviate_get v = Inl e \<Longrightarrow>
   (\<exists>m. e = TypeError m) \<or> (\<exists>m. e = AttributeError m) \<or> (\<exists>m. e = ValueError m)"
  by (cases v) (auto dest!: collect_Inl weaviate_collection_Inl)

lemma extract_Inl:
  "extract_search_result_ids d = Inl e \<Longrightarrow>
   (\<exists>m. e = TypeError m) \<or> (\<exists>m. e = AttributeError m) \<or> (\<exists>m. e = ValueError m)"
proof (induction d rule: extract_search_result_ids.induct)
  case (1 kvs)
  then show ?case
    by (auto split: option.splits
             dest!: weaviate_get_Inl collect_Inl id_of_Inl milvus_item_Inl str_each_Inl)
next
  case (2 xs)
  then show ?case
    by (auto split: if_splits dest!: collect_Inl chroma_sublist_Inl str_each_Inl)
qed simp_all

subsection \<open>Shapes it does not recognise\<close>

lemma extract_scalar: "\<not> is_dict d \<Longrightarrow> \<not> is_list d \<Longrightarrow> extract_search_result_ids d = Inr []"
  by (cases d) auto

lemma extract_unrecognised_dict:
  "lookup_list kvs ''data'' = None \<Longrightarrow> lookup_list kvs ''ids'' = None \<Longrightarrow>
   map_of kvs ''result'' = None \<Longrightarrow> map_of kvs ''Get'' = None \<Longrightarrow>
   lookup_list kvs ''points'' = None \<Longrightarrow>
   extract_search_result_ids (PDict kvs) = Inr []"
  by simp

lemma extract_empty_data: "extract_search_result_ids (PDict [(''data'', PList [])]) = Inr []"
  by (simp add: lookup_list_def)

subsection \<open>The unguarded member test\<close>

text \<open>
  C6. The extractor does not return on every payload. On a \<^verbatim>\<open>points\<close> list with a member
  that is not a mapping, \<^verbatim>\<open>'id' in point\<close> raises \<^verbatim>\<open>TypeError\<close> and the identifiers
  already collected are lost. The Milvus branch tests \<^verbatim>\<open>isinstance(item, dict)\<close> before
  \<^verbatim>\<open>'id' in item\<close>; on the same list under \<^verbatim>\<open>data\<close> it skips the member and returns the
  identifier of the other one.
\<close>

theorem extract_raises_on_points_member:
  "extract_search_result_ids (PDict [(''points'', PList [PDict [(''id'', PInt 1)], PInt 5])])
   = Inl (TypeError (''argument of type '' @ repr_str ''int'' @ '' is not iterable''))
   \<and> extract_search_result_ids (PDict [(''data'', PList [PDict [(''id'', PInt 1)], PInt 5])])
   = Inr [''1'']"
  by code_simp

section \<open>Properties of the insert and delete comparators\<close>

subsection \<open>\<^verbatim>\<open>_compare_delete_results\<close>\<close>

lemma delete_success_status:
  assumes "is_dict d \<longrightarrow> status_text d \<noteq> None"
  shows "delete_success d = Inr (PBool (reports_success d))"
proof (cases d)
  case (PDict kvs)
  with assms obtain s where "map_of kvs ''status'' = Some (PStr s)"
    by (auto split: option.splits pyval.splits)
  with PDict show ?thesis
    by (simp add: delete_success_def has_get_def dict_get_def reports_success_def)
qed (simp_all add: delete_success_def has_get_def reports_success_def)

lemma for_items_delete:
  assumes "\<forall>(db_name, result) \<in> set rs. is_dict (data result) \<longrightarrow> status_text (data result) \<noteq> None"
  shows "for_items (\<lambda>result. and_then (delete_success (data result)) (\<lambda>s. Inr (Some s))) rs
         = Inr (map (\<lambda>(db_name, result). (db_name, PBool (reports_success (data result)))) rs)"
  using assms
proof (induction rs)
  case Nil
  then show ?case by simp
next
  case (Cons x xs)
  obtain n r where x: "x = (n, r)" by (cases x)
  from Cons.prems x have "is_dict (data r) \<longrightarrow> status_text (data r) \<noteq> None" by simp
  then have "delete_success (data r) = Inr (PBool (reports_success (data r)))"
    by (rule delete_success_status)
  moreover from Cons have "for_items (\<lambda>result. and_then (delete_success (data result)) (\<lambda>s. Inr (Some s))) xs
         = Inr (map (\<lambda>(db_name, result). (db_name, PBool (reports_success (data result)))) xs)"
    by simp
  ultimately show ?case by (simp add: x)
qed

lemma all_truthy_flags:
  "list_all py_truthy (map snd (map (\<lambda>(db_name, result). (db_name, PBool (f result))) rs))
   \<longleftrightarrow> (\<forall>(db_name, result) \<in> set rs. f result)"
  by (induction rs) auto

text \<open>
  C5, as the code has it. On a map of successful delete results in which every payload
  that is a mapping has a string status field, the comparator derives for every adapter
  the boolean of the specification (\<^const>\<open>reports_success\<close>) and emits exactly one
  inconsistency listing the booleans of all adapters if and only if at least one of
  them is false; otherwise it emits nothing. It tests that all adapters report success,
  not that they agree.
\<close>

theorem delete_comparator_all_success:
  assumes "\<forall>(db_name, result) \<in> set rs. is_dict (data result) \<longrightarrow> status_text (data result) \<noteq> None"
  shows "compare_delete_results rs =
     Inr (if \<forall>(db_name, result) \<in> set rs. reports_success (data result) then []
          else [DeleteStatusMismatch
                  (map (\<lambda>(db_name, result). (db_name, PBool (reports_success (data result)))) rs)])"
  using all_truthy_flags [of "\<lambda>result. reports_success (data result)" rs]
  by (simp add: compare_delete_results_def for_items_delete [OF assms])

text \<open>
  Two adapters that both report \<^verbatim>\<open>error\<close> agree on false, and the comparator emits its
  inconsistency.
\<close>

theorem delete_agreeing_on_false_flagged:
  "compare_delete_results
     [succeeded_with ''milvus'' (PDict [(''status'', PStr ''error'')]),
      succeeded_with ''qdrant'' (PDict [(''status'', PStr ''error'')])]
   = Inr [DeleteStatusMismatch [(''milvus'', PBool False), (''qdrant'', PBool False)]]"
  by code_simp

theorem delete_comparator_all_success_witness:
  "compare_delete_results
     [succeeded_with ''milvus'' (PDict [(''status'', PStr ''SUCCESS'')]),
      succeeded_with ''qdrant'' (PDict [(''status'', PStr ''ok'')]),
      succeeded_with ''chroma'' (PList [PStr ''7''])] = Inr []
   \<and> compare_delete_results
     [succeeded_with ''milvus'' (PDict [(''status'', PStr ''Completed'')]),
      succeeded_with ''qdrant'' (PDict [(''status'', PStr ''error'')])]
     = Inr [DeleteStatusMismatch [(''milvus'', PBool True), (''qdrant'', PBool False)]]"
proof -
  have hyp: "\<forall>(db_name, result) \<in> set
     [succeeded_with ''milvus'' (PDict [(''status'', PStr ''SUCCESS'')]),
      succeeded_with ''qdrant'' (PDict [(''status'', PStr ''ok'')]),
      succeeded_with ''chroma'' (PList [PStr ''7''])].
       is_dict (data result) \<longrightarrow> status_text (data result) \<noteq> None"
    by (simp add: succeeded_with_def)
  have all: "\<forall>(db_name, result) \<in> set
     [succeeded_with ''milvus'' (PDict [(''status'', PStr ''SUCCESS'')]),
      succeeded_with ''qdrant'' (PDict [(''status'', PStr ''ok'')]),
      succeeded_with ''chroma'' (PList [PStr ''7''])]. reports_success (data result)"
    by code_simp
  have a: "compare_delete_results
     [succeeded_with ''milvus'' (PDict [(''status'', PStr ''SUCCESS'')]),
      succeeded_with ''qdrant'' (PDict [(''status'', PStr ''ok'')]),
      succeeded_with ''chroma'' (PList [PStr ''7''])] = Inr []"
    unfolding delete_comparator_all_success [OF hyp] by (subst if_P [OF all]) (rule refl)
  have b: "compare_delete_results
     [succeeded_with ''milvus'' (PDict [(''status'', PStr ''Completed'')]),
      succeeded_with ''qdrant'' (PDict [(''status'', PStr ''error'')])]
     = Inr [DeleteStatusMismatch [(''milvus'', PBool True), (''qdrant'', PBool False)]]"
    by code_simp
  from a b show ?thesis by simp
qed

subsection \<open>\<^verbatim>\<open>_compare_insert_results\<close>\<close>

text \<open>
  C4. The branch \<^verbatim>\<open>elif isinstance(result.data, dict)\<close>, which would count the \<^verbatim>\<open>ids\<close> of
  a generic dict response, follows \<^verbatim>\<open>if hasattr(result.data, 'get')\<close>, which every dict
  satisfies. A dict with neither \<^verbatim>\<open>insert_count\<close> nor \<^verbatim>\<open>status\<close> therefore gets no count
  at all: an adapter reporting 5 against an adapter returning four ids is not flagged,
  while 5 against an explicit 4 is.
\<close>

theorem insert_generic_dict_not_counted:
  "compare_insert_results
     [succeeded_with ''milvus'' (PDict [(''insert_count'', PInt 5)]),
      succeeded_with ''chroma'' (PDict [(''ids'', PList [PStr ''a'', PStr ''b'', PStr ''c'', PStr ''d''])])]
   = Inr []
   \<and> compare_insert_results
     [succeeded_with ''milvus'' (PDict [(''insert_count'', PInt 5)]),
      succeeded_with ''qdrant'' (PDict [(''insert_count'', PInt 4)])]
   = Inr [InsertCountMismatch [(''milvus'', PInt 5), (''qdrant'', PInt 4)]]"
  by code_simp

section \<open>Properties of the orchestrator\<close>

subsection \<open>One entry per configured adapter\<close>

lemma settle_keys: "settle i tasks gathered = Inr db_results \<Longrightarrow> map fst db_results = map fst tasks"
  by (induction i tasks gathered arbitrary: db_results rule: settle.induct)
     (auto simp: and_then_Inr split: if_splits)

lemma execute_keys: "map fst (execute_on_all_databases ev clients op inp) = map fst clients"
proof -
  let ?tasks = "map (\<lambda>(db_name, cl). (db_name, safe_execute ev db_name cl op inp)) clients"
  have tasks: "map fst ?tasks = map fst clients" by (induction clients) auto
  show ?thesis
  proof (cases "and_then (gather ev (map snd ?tasks)) (settle 0 ?tasks)")
    case (Inl e)
    then show ?thesis
      by (simp add: execute_on_all_databases_def Let_def comp_def case_prod_beta)
  next
    case (Inr db_results)
    then obtain gathered where "settle 0 ?tasks gathered = Inr db_results"
      by (auto simp: and_then_Inr)
    from settle_keys [OF this] tasks Inr show ?thesis
      by (simp add: execute_on_all_databases_def Let_def)
  qed
qed

lemma run_test_keys:
  assumes "run_test ev clients tid op inp = Inr tr"
  shows "map fst (results tr) = map fst clients \<and> map fst (TestResult.execution_time tr) = map fst clients"
proof -
  from assms obtain found where
    tr: "tr = \<lparr>test_id = tid, operation = op, inputs = inp,
             results = map (\<lambda>(name, result). (name, data result))
                         (execute_on_all_databases ev clients op inp),
             inconsistencies = found,
             execution_time = map (\<lambda>(name, result). (name, test_time ev name))
                                (execute_on_all_databases ev clients op inp)\<rparr>"
    by (auto simp: run_test_def Let_def and_then_Inr)
  show ?thesis
    using execute_keys [of ev clients op inp]
    by (simp add: tr comp_def case_prod_beta)
qed

lemma compare_results_all_failed:
  assumes "\<forall>(db_name, result) \<in> set rs. \<not> success result"
  shows "compare_results op rs = Inr []"
proof -
  from assms have "filter (\<lambda>(k, v). success v) rs = []"
    by (auto simp: filter_empty_conv)
  then show ?thesis by (simp add: compare_results_def)
qed

lemma comparator_returns:
  assumes "op \<notin> set [''insert'', ''batch_insert'', ''delete'']"
  shows "\<exists>found. comparator op rs = Inr found"
  using assms by (simp add: comparator_def result_comparators_def)

lemma compare_results_returns:
  assumes "length (filter (\<lambda>(k, v). success v) rs) < 2 \<or>
           op \<notin> set [''insert'', ''batch_insert'', ''delete'']"
  shows "\<exists>found. compare_results op rs = Inr found"
proof (cases "length (filter (\<lambda>(k, v). success v) rs) < 2")
  case True
  then show ?thesis by (simp add: compare_results_def Let_def)
next
  case False
  with assms have "op \<notin> set [''insert'', ''batch_insert'', ''delete'']" by simp
  from comparator_returns [OF this] obtain found
    where "comparator op (filter (\<lambda>(k, v). success v) rs) = Inr found" by blast
  with False show ?thesis by (simp add: compare_results_def Let_def)
qed

lemma run_test_returns:
  assumes "length (filter (\<lambda>(k, v). success v) (execute_on_all_databases ev clients op inp)) < 2 \<or>
           op \<notin> set [''insert'', ''batch_insert'', ''delete'']"
  shows "\<exists>tr. run_test ev clients tid op inp = Inr tr \<and>
              map fst (results tr) = map fst clients \<and>
              map fst (TestResult.execution_time tr) = map fst clients"
proof -
  from compare_results_returns [OF assms] obtain found
    where "compare_results op (execute_on_all_databases ev clients op inp) = Inr found" by blast
  then obtain tr where tr: "run_test ev clients tid op inp = Inr tr"
    by (simp add: run_test_def Let_def)
  with run_test_keys [OF tr] show ?thesis by blast
qed

lemma run_test_returns_iff:
  "isl (run_test ev clients tid op inp) \<longleftrightarrow>
   isl (compare_results op (execute_on_all_databases ev clients op inp))"
  by (cases "compare_results op (execute_on_all_databases ev clients op inp)")
     (simp_all add: run_test_def Let_def)

text \<open>
  C1. Whenever \<^verbatim>\<open>run_test\<close> returns, the two maps of its \<^verbatim>\<open>TestResult\<close> have exactly the
  configured adapters as keys, and it returns whenever fewer than two calls succeeded
  (so also when every call fails) or the operation is not an insert or a delete. But
  \<^verbatim>\<open>run_test\<close> calls \<^verbatim>\<open>_compare_results\<close> outside any handler: with two successful
  delete results of which the first carries a status that is not a string, the
  comparator raises \<^verbatim>\<open>AttributeError\<close> on \<^verbatim>\<open>.lower()\<close> and \<^verbatim>\<open>run_test\<close> returns no
  \<^verbatim>\<open>TestResult\<close>.
\<close>

theorem run_test_raises_on_delete_status:
  "run_test quiet_env
     [(''milvus'', constant_client (Inr (PDict [(''status'', PDict []), (''delete_cnt'', PInt 1)]))),
      (''qdrant'', constant_client (Inr (PDict [(''status'', PStr ''success'')])))]
     ''test_0000'' ''delete'' [(''ids'', PList [PStr ''1''])]
   = Inl (AttributeError (repr_str ''dict'' @ '' object has no attribute '' @ repr_str ''lower''))"
  by code_simp

subsection \<open>Failure of the gathering\<close>

text \<open>
  C7. When \<^verbatim>\<open>asyncio.gather\<close> raises an \<^verbatim>\<open>Exception\<close> on the adapters' tasks,
  \<^verbatim>\<open>_execute_on_all_databases\<close> returns, for every configured adapter in order, a failed
  result with no payload and the error \<^verbatim>\<open>Gather error: \<close> followed by the text of the
  exception; \<^verbatim>\<open>run_test\<close> does not propagate the exception and returns a
  \<^verbatim>\<open>TestResult\<close> with one entry per adapter in both maps and no inconsistency.
\<close>

theorem gather_failure_degrades:
  assumes "gather ev (map (\<lambda>(db_name, cl). safe_execute ev db_name cl op inp) clients) = Inl e"
  shows "execute_on_all_databases ev clients op inp =
           map (\<lambda>(db_name, cl).
             (db_name, \<lparr>database = db_name, success = False, data = PNone,
                        error = Some (''Gather error: '' @ error_str e), execution_time = 0\<rparr>)) clients
         \<and> run_test ev clients tid op inp =
           Inr \<lparr>test_id = tid, operation = op, inputs = inp,
                results = map (\<lambda>(db_name, cl). (db_name, PNone)) clients,
                inconsistencies = [],
                execution_time = map (\<lambda>(db_name, cl). (db_name, test_time ev db_name)) clients\<rparr>"
proof -
  have tasks: "map snd (map (\<lambda>(db_name, cl). (db_name, safe_execute ev db_name cl op inp)) clients)
             = map (\<lambda>(db_name, cl). safe_execute ev db_name cl op inp) clients"
    by (induction clients) auto
  have ex: "execute_on_all_databases ev clients op inp =
           map (\<lambda>(db_name, cl).
             (db_name, \<lparr>database = db_name, success = False, data = PNone,
                        error = Some (''Gather error: '' @ error_str e), execution_time = 0\<rparr>)) clients"
    unfolding execute_on_all_databases_def Let_def tasks assms by simp
  have cmp: "compare_results op (execute_on_all_databases ev clients op inp) = Inr []"
    by (rule compare_results_all_failed) (auto simp: ex)
  have "run_test ev clients tid op inp =
           Inr \<lparr>test_id = tid, operation = op, inputs = inp,
                results = map (\<lambda>(db_name, cl). (db_name, PNone)) clients,
                inconsistencies = [],
                execution_time = map (\<lambda>(db_name, cl). (db_name, test_time ev db_name)) clients\<rparr>"
    unfolding run_test_def Let_def cmp
    by (simp add: ex comp_def case_prod_beta)
  with ex show ?thesis by simp
qed

theorem gather_failure_degrades_witness:
  "run_test broken_env
     [(''milvus'', constant_client (Inr (PDict [(''data'', PList [])]))),
      (''chroma'', constant_client (Inl (Exception ''Search failed: 500'')))]
     ''test_0001'' ''search'' [(''query_vector'', PList [PInt 0, PInt 1])]
   = Inr \<lparr>test_id = ''test_0001'', operation = ''search'',
          inputs = [(''query_vector'', PList [PInt 0, PInt 1])],
          results = [(''milvus'', PNone), (''chroma'', PNone)],
          inconsistencies = [],
          execution_time = [(''milvus'', 0), (''chroma'', 0)]\<rparr>"
proof -
  have raised: "gather broken_env
     (map (\<lambda>(db_name, cl).
        safe_execute broken_env db_name cl ''search'' [(''query_vector'', PList [PInt 0, PInt 1])])
       [(''milvus'', constant_client (Inr (PDict [(''data'', PList [])]))),
        (''chroma'', constant_client (Inl (Exception ''Search failed: 500'')))])
     = Inl (Exception ''event loop is closed'')"
    by (simp add: broken_env_def)
  show ?thesis
    using gather_failure_degrades [OF raised, of "''test_0001''"]
    by (simp add: broken_env_def)
qed

end
